theory Spec2Isabelle
  imports Complex_Main "HOL-Library.Word"
begin

section \<open>JavaScript values\<close>

text \<open>
  A JavaScript string is a sequence of UTF-16 code units. String literals of the source
  are ASCII and are written through \<open>js\<close>. Numbers of the source (progress values and
  the results of \<open>Math.random()\<close>) are IEEE 754 binary64 values; a finite one is
  modelled as the real number it denotes, and \<open>+\<close> and \<open>*\<close> as the exact result
  rounded to binary64 (see \<open>binary64\<close> below).
\<close>

type_synonym jschar = "16 word"
type_synonym jsstring = "jschar list"

definition js :: "string \<Rightarrow> jsstring" where
  "js s = map (\<lambda>c. of_nat (of_char c)) s"

text \<open>
  The line terminators of ECMAScript (LF, CR, LS, PS): the code units that \<open>.\<close> in a
  regular expression without the \<open>s\<close> flag does not match.
\<close>

definition isLineTerminator :: "jschar \<Rightarrow> bool" where
  "isLineTerminator c \<longleftrightarrow> c = 0x0A \<or> c = 0x0D \<or> c = 0x2028 \<or> c = 0x2029"

text \<open>\<open>Math.round\<close>: the nearest integer, ties towards positive infinity.\<close>

definition Math_round :: "real \<Rightarrow> real" where
  "Math_round x = of_int \<lfloor>x + 1 / 2\<rfloor>"

text \<open>
  Rounding of a real number to binary64, to nearest with ties to even: the unit in the
  last place is \<open>2\<close> to the power \<open>e\<close>, where \<open>e\<close> is 52 below the binary
  exponent of the number, and not below that of the subnormal numbers. The sums and
  products of the source add less than 15 to a binary64 value and so never round to
  infinity, which has no counterpart here.
\<close>

definition pow2 :: "int \<Rightarrow> real" where
  "pow2 e = (if 0 \<le> e then 2 ^ nat e else 1 / 2 ^ nat (- e))"

definition roundTiesToEven :: "real \<Rightarrow> int" where
  "roundTiesToEven y =
     (let n = \<lfloor>y\<rfloor>
      in if y - of_int n < 1 / 2 then n
         else if 1 / 2 < y - of_int n then n + 1
         else if even n then n else n + 1)"

definition binary64 :: "real \<Rightarrow> real" where
  "binary64 x =
     (if x = 0 then 0
      else let e = max \<lfloor>log 2 \<bar>x\<bar>\<rfloor> (- 1022) - 52
           in of_int (roundTiesToEven (x / pow2 e)) * pow2 e)"

text \<open>The operators \<open>+\<close> and \<open>*\<close> on numbers.\<close>

definition js_add :: "real \<Rightarrow> real \<Rightarrow> real" where
  "js_add x y = binary64 (x + y)"

definition js_mul :: "real \<Rightarrow> real \<Rightarrow> real" where
  "js_mul x y = binary64 (x * y)"

section \<open>Regular expressions and \<open>isValidYouTubeUrl\<close>\<close>

text \<open>
  The fragment of regular expressions the source uses: literals, \<open>.\<close>, alternation,
  concatenation, \<open>?\<close> and \<open>+\<close>. \<open>test\<close> decides by residuals whether some prefix of
  the input matches, which is what \<open>RegExp.prototype.test\<close> returns for a pattern that
  starts with \<open>^\<close> and has no \<open>$\<close>.
\<close>

datatype regex =
    Never
  | Empty
  | Lit jschar
  | Dot
  | Alt regex regex
  | Seq regex regex
  | Star regex

definition Opt :: "regex \<Rightarrow> regex" where
  "Opt r = Alt r Empty"

definition Plus :: "regex \<Rightarrow> regex" where
  "Plus r = Seq r (Star r)"

fun lits :: "jsstring \<Rightarrow> regex" where
  "lits [] = Empty"
| "lits (c # cs) = Seq (Lit c) (lits cs)"

fun matchesEmpty :: "regex \<Rightarrow> bool" where
  "matchesEmpty Never = False"
| "matchesEmpty Empty = True"
| "matchesEmpty (Lit c) = False"
| "matchesEmpty Dot = False"
| "matchesEmpty (Alt r1 r2) = (matchesEmpty r1 \<or> matchesEmpty r2)"
| "matchesEmpty (Seq r1 r2) = (matchesEmpty r1 \<and> matchesEmpty r2)"
| "matchesEmpty (Star r) = True"

fun residual :: "jschar \<Rightarrow> regex \<Rightarrow> regex" where
  "residual x Never = Never"
| "residual x Empty = Never"
| "residual x (Lit c) = (if x = c then Empty else Never)"
| "residual x Dot = (if isLineTerminator x then Never else Empty)"
| "residual x (Alt r1 r2) = Alt (residual x r1) (residual x r2)"
| "residual x (Seq r1 r2) =
     (if matchesEmpty r1 then Alt (Seq (residual x r1) r2) (residual x r2)
      else Seq (residual x r1) r2)"
| "residual x (Star r) = Seq (residual x r) (Star r)"

fun test :: "regex \<Rightarrow> jsstring \<Rightarrow> bool" where
  "test r [] = matchesEmpty r"
| "test r (x # xs) = (matchesEmpty r \<or> test (residual x r) xs)"

text \<open>\<^verbatim>\<open>/^(https?:\/\/)?(www\.)?(youtube\.com|youtu\.be)\/.+/\<close>\<close>

definition youtubeRegex :: regex where
  "youtubeRegex =
     Seq (Seq (Opt (Seq (lits (js ''http'')) (Seq (Opt (lits (js ''s''))) (lits (js ''://'')))))
            (Seq (Opt (lits (js ''www.'')))
               (Seq (Alt (lits (js ''youtube.com'')) (lits (js ''youtu.be'')))
                  (lits (js ''/'')))))
         (Plus Dot)"

definition isValidYouTubeUrl :: "jsstring \<Rightarrow> bool" where
  "isValidYouTubeUrl url = test youtubeRegex url"

text \<open>The words a regular expression matches in full.\<close>

inductive_set rep :: "jsstring set \<Rightarrow> jsstring set" for A :: "jsstring set" where
  rep_nil: "[] \<in> rep A"
| rep_app: "u \<in> A \<Longrightarrow> v \<in> rep A \<Longrightarrow> u @ v \<in> rep A"

fun denote :: "regex \<Rightarrow> jsstring set" where
  "denote Never = {}"
| "denote Empty = {[]}"
| "denote (Lit c) = {[c]}"
| "denote Dot = {[x] |x. \<not> isLineTerminator x}"
| "denote (Alt r1 r2) = denote r1 \<union> denote r2"
| "denote (Seq r1 r2) = {u @ v |u v. u \<in> denote r1 \<and> v \<in> denote r2}"
| "denote (Star r) = rep (denote r)"

text \<open>
  The URL shape in the words of the specification: after optionally stripping a leading
  protocol and an optional \<open>www.\<close> prefix, the string begins with one of the two host
  names followed by \<open>/\<close> and at least one further character.
\<close>

fun dropPrefix :: "jsstring \<Rightarrow> jsstring \<Rightarrow> jsstring option" where
  "dropPrefix [] s = Some s"
| "dropPrefix (p # ps) [] = None"
| "dropPrefix (p # ps) (x # xs) = (if p = x then dropPrefix ps xs else None)"

definition spec_url_shape :: "jsstring \<Rightarrow> bool" where
  "spec_url_shape s \<longleftrightarrow>
     (\<exists>proto \<in> set [[], js ''http://'', js ''https://''].
      \<exists>www \<in> set [[], js ''www.''].
      \<exists>host \<in> set [js ''youtube.com'', js ''youtu.be''].
        case dropPrefix (proto @ www @ host @ js ''/'') s of
          Some (c # rest) \<Rightarrow> True
        | _ \<Rightarrow> False)"

text \<open>The same shape, with the further character required not to be a line terminator.\<close>

definition url_shape :: "jsstring \<Rightarrow> bool" where
  "url_shape s \<longleftrightarrow>
     (\<exists>proto \<in> set [[], js ''http://'', js ''https://''].
      \<exists>www \<in> set [[], js ''www.''].
      \<exists>host \<in> set [js ''youtube.com'', js ''youtu.be''].
        case dropPrefix (proto @ www @ host @ js ''/'') s of
          Some (c # rest) \<Rightarrow> \<not> isLineTerminator c
        | _ \<Rightarrow> False)"

section \<open>State shared by the two variants of \<open>App\<close>\<close>

text \<open>
  The status strings. The component state ranges over \<open>idle\<close> to \<open>error\<close>; the
  \<open>DownloadJob\<close> interface of the persistence-backed variant has \<open>pending\<close> in place
  of \<open>idle\<close>, and the change listener copies one into the other unchanged.
\<close>

datatype status = Idle | Pending | Analyzing | Ready | Downloading | Complete | Error

datatype media = Audio | Video

record DownloadOption =
  opt_id :: jsstring
  opt_label :: jsstring
  opt_type :: media
  opt_quality :: "jsstring option"
  opt_size :: "jsstring option"

definition downloadOptions :: "DownloadOption list" where
  "downloadOptions =
    [\<lparr>opt_id = js ''mp3-128'', opt_label = js ''MP3 Audio (128 kbps)'', opt_type = Audio,
        opt_quality = None, opt_size = Some (js ''~3MB'')\<rparr>,
     \<lparr>opt_id = js ''mp3-320'', opt_label = js ''MP3 Audio (320 kbps)'', opt_type = Audio,
        opt_quality = None, opt_size = Some (js ''~7MB'')\<rparr>,
     \<lparr>opt_id = js ''mp4-360'', opt_label = js ''MP4 Video (360p)'', opt_type = Video,
        opt_quality = Some (js ''360p''), opt_size = Some (js ''~15MB'')\<rparr>,
     \<lparr>opt_id = js ''mp4-720'', opt_label = js ''MP4 Video (720p)'', opt_type = Video,
        opt_quality = Some (js ''720p''), opt_size = Some (js ''~45MB'')\<rparr>,
     \<lparr>opt_id = js ''mp4-1080'', opt_label = js ''MP4 Video (1080p)'', opt_type = Video,
        opt_quality = Some (js ''1080p''), opt_size = Some (js ''~85MB'')\<rparr>]"

text \<open>The \<open>useState\<close> cells both variants have.\<close>

record app =
  url :: jsstring
  selectedFormat :: jsstring
  downloadProgress :: real
  status :: status

section \<open>The timer-only variant (\<open>src/App.tsx\<close>)\<close>

text \<open>
  Besides the \<open>useState\<close> cells, the state counts the one-shot analysis callbacks that
  \<open>setTimeout\<close> has scheduled and that have not fired, and the progress intervals that
  \<open>setInterval\<close> has started and \<open>clearInterval\<close> has not stopped. The callbacks of
  this variant capture nothing but the state setters, so a count describes them.
\<close>

record simple_app = app +
  isAnalyzing :: bool
  isDownloading :: bool
  pendingTimeouts :: nat
  runningIntervals :: nat

definition init :: simple_app where
  "init = \<lparr>url = [], selectedFormat = [], downloadProgress = 0, status = Idle,
            isAnalyzing = False, isDownloading = False,
            pendingTimeouts = 0, runningIntervals = 0\<rparr>"

definition handleAnalyze :: "simple_app \<Rightarrow> simple_app" where
  "handleAnalyze s =
     (if \<not> isValidYouTubeUrl (url s) then s\<lparr>status := Error\<rparr>
      else s\<lparr>isAnalyzing := True, status := Analyzing,
              pendingTimeouts := Suc (pendingTimeouts s)\<rparr>)"

text \<open>The callback handed to \<open>setTimeout\<close> in \<open>handleAnalyze\<close>.\<close>

definition analysisDone :: "simple_app \<Rightarrow> simple_app" where
  "analysisDone s = s\<lparr>isAnalyzing := False, status := Ready\<rparr>"

definition handleDownload :: "simple_app \<Rightarrow> simple_app" where
  "handleDownload s =
     (if selectedFormat s = [] then s
      else s\<lparr>isDownloading := True, status := Downloading, downloadProgress := 0,
              runningIntervals := Suc (runningIntervals s)\<rparr>)"

text \<open>
  The callback handed to \<open>setInterval\<close> in \<open>handleDownload\<close>; \<open>r\<close> is the value
  \<open>Math.random()\<close> returns in it.
\<close>

definition progressTick :: "real \<Rightarrow> simple_app \<Rightarrow> simple_app" where
  "progressTick r s =
     (if downloadProgress s \<ge> 100
      then s\<lparr>runningIntervals := runningIntervals s - 1, isDownloading := False,
              status := Complete, downloadProgress := 100\<rparr>
      else s\<lparr>downloadProgress := js_add (downloadProgress s) (js_mul r 15)\<rparr>)"

definition resetForm :: "simple_app \<Rightarrow> simple_app" where
  "resetForm s = s\<lparr>url := [], selectedFormat := [], downloadProgress := 0, status := Idle\<rparr>"

text \<open>
  What can happen to the component: the user's actions, as far as the rendered elements
  allow them in the current state, and the two kinds of timer callback. The value of
  \<open>Math.random()\<close> is a binary64 value in [0, 1).
\<close>

datatype event =
    UrlInput jsstring
  | AnalyzeClick
  | FormatPick jsstring
  | DownloadClick
  | ResetClick
  | AnalysisTimer
  | ProgressTimer real

fun enabled :: "event \<Rightarrow> simple_app \<Rightarrow> bool" where
  "enabled (UrlInput v) s = True"
| "enabled AnalyzeClick s = (\<not> (url s = [] \<or> isAnalyzing s \<or> status s = Downloading))"
| "enabled (FormatPick v) s =
     ((status s = Ready \<or> status s = Downloading \<or> status s = Complete) \<and>
      v \<in> set (map opt_id downloadOptions))"
| "enabled DownloadClick s = (status s = Ready \<and> selectedFormat s \<noteq> [])"
| "enabled ResetClick s = (status s = Complete \<or> status s = Error)"
| "enabled AnalysisTimer s = (0 < pendingTimeouts s)"
| "enabled (ProgressTimer r) s =
     (0 < runningIntervals s \<and> 0 \<le> r \<and> r < 1 \<and> binary64 r = r)"

fun handler :: "event \<Rightarrow> simple_app \<Rightarrow> simple_app" where
  "handler (UrlInput v) s = s\<lparr>url := v\<rparr>"
| "handler AnalyzeClick s = handleAnalyze s"
| "handler (FormatPick v) s = s\<lparr>selectedFormat := v\<rparr>"
| "handler DownloadClick s = handleDownload s"
| "handler ResetClick s = resetForm s"
| "handler AnalysisTimer s = analysisDone (s\<lparr>pendingTimeouts := pendingTimeouts s - 1\<rparr>)"
| "handler (ProgressTimer r) s = progressTick r s"

definition step :: "event \<Rightarrow> simple_app \<Rightarrow> simple_app" where
  "step e s = (if enabled e s then handler e s else s)"

fun run :: "event list \<Rightarrow> simple_app \<Rightarrow> simple_app" where
  "run [] s = s"
| "run (e # es) s = run es (step e s)"

section \<open>The persistence-backed variant\<close>

text \<open>
  A job record of the document store. Every field is optional: a write with
  \<open>merge: true\<close> on a path that holds no record creates one with the written fields
  only. \<open>None\<close> stands for a field that is absent or \<open>null\<close>; the component reads the
  two fields that can be \<open>null\<close> through \<open>|| null\<close> and cannot tell the two apart.
\<close>

record DownloadJob =
  job_url :: "jsstring option"
  job_selectedFormatId :: "jsstring option"
  job_status :: "status option"
  job_progress :: "real option"
  job_downloadUrl :: "jsstring option"
  job_errorMessage :: "jsstring option"
  job_timestamp :: "nat option"
  job_userId :: "jsstring option"

definition emptyDoc :: DownloadJob where
  "emptyDoc = \<lparr>job_url = None, job_selectedFormatId = None, job_status = None,
     job_progress = None, job_downloadUrl = None, job_errorMessage = None,
     job_timestamp = None, job_userId = None\<rparr>"

text \<open>
  A document reference \<open>artifacts/<app>/users/<userId>/downloadJobs/<jobId>\<close>, as the
  pair of the two identifiers that vary.
\<close>

type_synonym docRef = "jsstring \<times> jsstring"

type_synonym firestore = "docRef \<Rightarrow> DownloadJob option"

text \<open>\<open>setDoc(ref, data)\<close> replaces the record; \<open>setDoc(ref, data, {merge: true})\<close>
  overwrites the fields of \<open>data\<close> and keeps the others.\<close>

definition setDoc :: "docRef \<Rightarrow> DownloadJob \<Rightarrow> firestore \<Rightarrow> firestore" where
  "setDoc ref d db = db(ref \<mapsto> d)"

definition setDoc_merge :: "docRef \<Rightarrow> (DownloadJob \<Rightarrow> DownloadJob) \<Rightarrow> firestore \<Rightarrow> firestore" where
  "setDoc_merge ref upd db =
     db(ref \<mapsto> upd (case db ref of None \<Rightarrow> emptyDoc | Some d \<Rightarrow> d))"

text \<open>
  A running progress interval: the variables its callback closes over, that is the
  document reference (which holds \<open>jobId\<close>), \<open>selectedFormat\<close> and \<open>currentProgress\<close>.
\<close>

record interval =
  iv_ref :: docRef
  iv_format :: jsstring
  currentProgress :: real

record persist_app = app +
  jobId :: "jsstring option"
  currentDownloadUrl :: "jsstring option"
  errorMessage :: "jsstring option"
  userId :: "jsstring option"
  isAuthReady :: bool
  store :: firestore
  jobTimeouts :: "docRef list"
  jobIntervals :: "interval list"

definition init_db :: persist_app where
  "init_db = \<lparr>url = [], selectedFormat = [], downloadProgress = 0, status = Idle,
     jobId = None, currentDownloadUrl = None, errorMessage = None, userId = None,
     isAuthReady = False, store = (\<lambda>ref. None), jobTimeouts = [], jobIntervals = []\<rparr>"

text \<open>\<open>!x\<close> for a string that may be \<open>null\<close>, and \<open>x || null\<close>.\<close>

definition falsy :: "jsstring option \<Rightarrow> bool" where
  "falsy x \<longleftrightarrow> x = None \<or> x = Some []"

definition orNull :: "jsstring option \<Rightarrow> jsstring option" where
  "orNull x = (if falsy x then None else x)"

text \<open>
  \<open>handleAnalyze\<close>. The parameters are what the environment decides: the renderings of
  \<open>Date.now()\<close> and of the random suffix in the job identifier, the time stamp, and
  whether the write of the new record succeeds. The handler runs to its end in one step.
\<close>

definition handleAnalyze_db ::
  "jsstring \<Rightarrow> jsstring \<Rightarrow> nat \<Rightarrow> bool \<Rightarrow> persist_app \<Rightarrow> persist_app" where
  "handleAnalyze_db now rnd ts ok s =
     (if \<not> isValidYouTubeUrl (url s)
      then s\<lparr>status := Error, errorMessage := Some (js ''Please enter a valid YouTube URL.'')\<rparr>
      else if falsy (userId s)
      then s\<lparr>errorMessage := Some (js ''User not authenticated. Please wait or refresh.'')\<rparr>
      else
        case userId s of
          None \<Rightarrow> s
        | Some u \<Rightarrow>
            let newJobId = js ''job_'' @ now @ js ''_'' @ rnd;
                jobDocRef = (u, newJobId);
                s1 = s\<lparr>status := Analyzing, errorMessage := None, selectedFormat := [],
                       jobId := Some newJobId\<rparr>
            in if ok
               then s1\<lparr>store := setDoc jobDocRef
                         \<lparr>job_url = Some (url s), job_selectedFormatId = Some [],
                          job_status = Some Analyzing, job_progress = Some 0,
                          job_downloadUrl = None, job_errorMessage = None,
                          job_timestamp = Some ts, job_userId = Some u\<rparr> (store s1),
                       jobTimeouts := jobTimeouts s1 @ [jobDocRef]\<rparr>
               else s1\<lparr>status := Error,
                       errorMessage := Some (js ''Failed to initiate analysis. Please try again.'')\<rparr>)"

text \<open>The callback handed to \<open>setTimeout\<close>: nothing after a failed write is executed.\<close>

definition analysisDone_db :: "docRef \<Rightarrow> bool \<Rightarrow> persist_app \<Rightarrow> persist_app" where
  "analysisDone_db jobDocRef ok s =
     (if ok
      then s\<lparr>store := setDoc_merge jobDocRef
                (\<lambda>d. d\<lparr>job_status := Some Ready, job_progress := Some 0,
                        job_errorMessage := None\<rparr>) (store s),
              status := Ready\<rparr>
      else s)"

text \<open>
  \<open>handleDownload\<close>; \<open>ok\<close> says whether the first write succeeds and \<open>ok'\<close> whether the
  write in the \<open>catch\<close> block does.
\<close>

definition handleDownload_db :: "bool \<Rightarrow> bool \<Rightarrow> persist_app \<Rightarrow> persist_app" where
  "handleDownload_db ok ok' s =
     (if selectedFormat s = [] \<or> falsy (jobId s) \<or> falsy (userId s) then s
      else
        case (jobId s, userId s) of
          (Some j, Some u) \<Rightarrow>
            let jobDocRef = (u, j);
                s1 = s\<lparr>status := Downloading, errorMessage := None, downloadProgress := 0,
                       currentDownloadUrl := None\<rparr>
            in if ok
               then s1\<lparr>store := setDoc_merge jobDocRef
                         (\<lambda>d. d\<lparr>job_selectedFormatId := Some (selectedFormat s),
                                 job_status := Some Downloading, job_progress := Some 0,
                                 job_errorMessage := None\<rparr>) (store s1),
                       jobIntervals := jobIntervals s1 @
                         [\<lparr>iv_ref = jobDocRef, iv_format = selectedFormat s,
                           currentProgress = 0\<rparr>]\<rparr>
               else
                 let s2 = s1\<lparr>status := Error,
                        errorMessage := Some (js ''Failed to start download. Please try again.'')\<rparr>
                 in if ok'
                    then s2\<lparr>store := setDoc_merge jobDocRef
                              (\<lambda>d. d\<lparr>job_status := Some Error,
                                      job_errorMessage := Some (js ''Failed to start download.'')\<rparr>)
                              (store s2)\<rparr>
                    else s2
        | _ \<Rightarrow> s)"

text \<open>
  One run of the interval callback on the variables it closes over: the interval that
  remains (\<open>None\<close> after \<open>clearInterval\<close>) and the fields it writes. \<open>r\<close> is the value
  of \<open>Math.random()\<close>.
\<close>

definition mockDownloadUrl :: "jsstring \<Rightarrow> jsstring \<Rightarrow> jsstring" where
  "mockDownloadUrl j fmt = js ''https://example.com/downloads/'' @ j @ js ''_'' @ fmt @ js ''.mp4''"

definition tick :: "real \<Rightarrow> interval \<Rightarrow> interval option \<times> (DownloadJob \<Rightarrow> DownloadJob)" where
  "tick r iv =
     (let c = js_add (currentProgress iv) (js_mul r 15)
      in if c \<ge> 100
         then (None,
               \<lambda>d. d\<lparr>job_status := Some Complete, job_progress := Some 100,
                      job_downloadUrl := Some (mockDownloadUrl (snd (iv_ref iv)) (iv_format iv)),
                      job_errorMessage := None\<rparr>)
         else (Some (iv\<lparr>currentProgress := c\<rparr>),
               \<lambda>d. d\<lparr>job_progress := Some (Math_round c)\<rparr>))"

text \<open>
  The \<open>i\<close>-th running interval fires; \<open>ok\<close> says whether its write succeeds. An
  interval that is not running does not fire.
\<close>

definition progressTick_db :: "nat \<Rightarrow> real \<Rightarrow> bool \<Rightarrow> persist_app \<Rightarrow> persist_app" where
  "progressTick_db i r ok s =
     (if i < length (jobIntervals s)
      then
        let iv = jobIntervals s ! i;
            (iv', upd) = tick r iv;
            s1 = s\<lparr>jobIntervals :=
                    (case iv' of
                       None \<Rightarrow> take i (jobIntervals s) @ drop (Suc i) (jobIntervals s)
                     | Some v \<Rightarrow> (jobIntervals s)[i := v])\<rparr>
        in if ok then s1\<lparr>store := setDoc_merge (iv_ref iv) upd (store s1)\<rparr> else s1
      else s)"

definition resetForm_db :: "persist_app \<Rightarrow> persist_app" where
  "resetForm_db s =
     s\<lparr>url := [], selectedFormat := [], jobId := None, downloadProgress := 0, status := Idle,
       currentDownloadUrl := None, errorMessage := None\<rparr>"

text \<open>The \<open>onChange\<close> handler of the URL input.\<close>

definition changeUrl_db :: "jsstring \<Rightarrow> persist_app \<Rightarrow> persist_app" where
  "changeUrl_db v s =
     (let s1 = s\<lparr>url := v\<rparr>
      in if status s = Error \<and> isValidYouTubeUrl v
         then s1\<lparr>status := Idle, errorMessage := None\<rparr>
         else s1)"

text \<open>
  The change listener is subscribed while \<open>jobId\<close>, \<open>userId\<close> and \<open>isAuthReady\<close> are
  all set. Its callback copies four fields of the record into the component. The record
  is read \<open>as DownloadJob\<close>, whose \<open>status\<close> and \<open>progress\<close> are required: a record
  without one of them would put \<open>undefined\<close> into a state cell, which is the result
  \<open>None\<close> here.
\<close>

definition listening :: "persist_app \<Rightarrow> bool" where
  "listening s \<longleftrightarrow> \<not> falsy (jobId s) \<and> \<not> falsy (userId s) \<and> isAuthReady s"

definition onSnapshot :: "persist_app \<Rightarrow> persist_app option" where
  "onSnapshot s =
     (case (jobId s, userId s) of
        (Some j, Some u) \<Rightarrow>
          (case store s (u, j) of
             None \<Rightarrow> Some s
           | Some jobData \<Rightarrow>
               (case (job_status jobData, job_progress jobData) of
                  (Some st, Some p) \<Rightarrow>
                    Some (s\<lparr>status := st, downloadProgress := p,
                            currentDownloadUrl := orNull (job_downloadUrl jobData),
                            errorMessage := orNull (job_errorMessage jobData)\<rparr>)
                | _ \<Rightarrow> None))
      | _ \<Rightarrow> Some s)"

definition onSnapshotError :: "persist_app \<Rightarrow> persist_app" where
  "onSnapshotError s =
     s\<lparr>errorMessage := Some (js ''Failed to get real-time updates for the download.'')\<rparr>"

text \<open>The end of \<open>authenticate\<close>, and the callback of \<open>onAuthStateChanged\<close>.\<close>

definition authenticate :: "bool \<Rightarrow> persist_app \<Rightarrow> persist_app" where
  "authenticate ok s =
     (if ok then s else s\<lparr>errorMessage := Some (js ''Authentication failed. Please try again.'')\<rparr>)
     \<lparr>isAuthReady := True\<rparr>"

definition authStateChanged :: "jsstring option \<Rightarrow> persist_app \<Rightarrow> persist_app" where
  "authStateChanged uid s = s\<lparr>userId := uid\<rparr>"

text \<open>
  The events of this variant. A change notification may be delivered whenever the
  listener is subscribed, which includes every delivery the document store makes.
\<close>

datatype event_db =
    UrlInput_db jsstring
  | AnalyzeClick_db jsstring jsstring nat bool
  | FormatPick_db jsstring
  | DownloadClick_db bool bool
  | ResetClick_db
  | AnalysisTimer_db nat bool
  | ProgressTimer_db nat real bool
  | Snapshot
  | SnapshotError
  | AuthDone bool
  | AuthState "jsstring option"

fun enabled_db :: "event_db \<Rightarrow> persist_app \<Rightarrow> bool" where
  "enabled_db (UrlInput_db v) s = (\<not> (status s = Analyzing \<or> status s = Downloading))"
| "enabled_db (AnalyzeClick_db now rnd ts ok) s =
     (\<not> (url s = [] \<or> status s = Analyzing \<or> status s = Downloading \<or> falsy (userId s)))"
| "enabled_db (FormatPick_db v) s =
     ((status s = Ready \<or> status s = Downloading \<or> status s = Complete) \<and>
      \<not> status s = Downloading \<and> v \<in> set (map opt_id downloadOptions))"
| "enabled_db (DownloadClick_db ok ok') s =
     (status s = Ready \<and> \<not> (selectedFormat s = [] \<or> status s = Downloading))"
| "enabled_db ResetClick_db s = (status s = Complete \<or> status s = Error)"
| "enabled_db (AnalysisTimer_db i ok) s = (i < length (jobTimeouts s))"
| "enabled_db (ProgressTimer_db i r ok) s =
     (i < length (jobIntervals s) \<and> 0 \<le> r \<and> r < 1 \<and> binary64 r = r)"
| "enabled_db Snapshot s = listening s"
| "enabled_db SnapshotError s = listening s"
| "enabled_db (AuthDone ok) s = (\<not> isAuthReady s)"
| "enabled_db (AuthState uid) s = True"

fun handler_db :: "event_db \<Rightarrow> persist_app \<Rightarrow> persist_app option" where
  "handler_db (UrlInput_db v) s = Some (changeUrl_db v s)"
| "handler_db (AnalyzeClick_db now rnd ts ok) s = Some (handleAnalyze_db now rnd ts ok s)"
| "handler_db (FormatPick_db v) s = Some (s\<lparr>selectedFormat := v\<rparr>)"
| "handler_db (DownloadClick_db ok ok') s = Some (handleDownload_db ok ok' s)"
| "handler_db ResetClick_db s = Some (resetForm_db s)"
| "handler_db (AnalysisTimer_db i ok) s =
     (if i < length (jobTimeouts s)
      then Some (analysisDone_db (jobTimeouts s ! i) ok
             (s\<lparr>jobTimeouts := take i (jobTimeouts s) @ drop (Suc i) (jobTimeouts s)\<rparr>))
      else Some s)"
| "handler_db (ProgressTimer_db i r ok) s = Some (progressTick_db i r ok s)"
| "handler_db Snapshot s = onSnapshot s"
| "handler_db SnapshotError s = Some (onSnapshotError s)"
| "handler_db (AuthDone ok) s = Some (authenticate ok s)"
| "handler_db (AuthState uid) s = Some (authStateChanged uid s)"

definition step_db :: "event_db \<Rightarrow> persist_app \<Rightarrow> persist_app option" where
  "step_db e s = (if enabled_db e s then handler_db e s else Some s)"


section \<open>Auxiliary notions for the proofs\<close>

definition cat :: "jsstring set \<Rightarrow> jsstring set \<Rightarrow> jsstring set" where
  "cat A B = {u @ v |u v. u \<in> A \<and> v \<in> B}"

definition urlHeads :: "jsstring set" where
  "urlHeads =
     (\<Union>proto \<in> {[], js ''http://'', js ''https://''}. \<Union>www \<in> {[], js ''www.''}.
      \<Union>host \<in> {js ''youtube.com'', js ''youtu.be''}. {proto @ www @ host @ js ''/''})"






section \<open>The URL check\<close>

subsection \<open>The residual matcher decides prefix matching\<close>

lemma matchesEmpty_iff: "matchesEmpty r \<longleftrightarrow> [] \<in> denote r"
  by (induction r) (auto intro: rep.rep_nil)

lemma rep_cons_iff:
  "x # w \<in> rep A \<longleftrightarrow> (\<exists>u v. w = u @ v \<and> x # u \<in> A \<and> v \<in> rep A)"
proof
  assume "x # w \<in> rep A"
  then show "\<exists>u v. w = u @ v \<and> x # u \<in> A \<and> v \<in> rep A"
  proof (induction "x # w" arbitrary: w rule: rep.induct)
    case (rep_app u v)
    then show ?case by (cases u) auto
  qed
next
  assume "\<exists>u v. w = u @ v \<and> x # u \<in> A \<and> v \<in> rep A"
  then obtain u v where "w = u @ v" "x # u \<in> A" "v \<in> rep A" by blast
  then show "x # w \<in> rep A" using rep.rep_app [of "x # u" A v] by simp
qed

lemma residual_denote: "w \<in> denote (residual x r) \<longleftrightarrow> x # w \<in> denote r"
proof (induction r arbitrary: w)
  case (Seq r1 r2)
  then show ?case
    by (auto simp: matchesEmpty_iff Cons_eq_append_conv)
next
  case (Star r)
  then show ?case by (auto simp: rep_cons_iff)
qed auto

lemma test_iff: "test r s \<longleftrightarrow> (\<exists>p q. s = p @ q \<and> p \<in> denote r)"
proof (induction s arbitrary: r)
  case Nil
  then show ?case by (simp add: matchesEmpty_iff)
next
  case (Cons x xs)
  show ?case
  proof
    assume "test r (x # xs)"
    then consider "matchesEmpty r" | "test (residual x r) xs" by auto
    then show "\<exists>p q. x # xs = p @ q \<and> p \<in> denote r"
    proof cases
      case 1
      then show ?thesis by (auto simp: matchesEmpty_iff)
    next
      case 2
      then obtain p q where "xs = p @ q" "p \<in> denote (residual x r)"
        using Cons.IH by blast
      then have "x # xs = (x # p) @ q \<and> x # p \<in> denote r"
        by (simp add: residual_denote)
      then show ?thesis by blast
    qed
  next
    assume "\<exists>p q. x # xs = p @ q \<and> p \<in> denote r"
    then obtain p q where pq: "x # xs = p @ q" "p \<in> denote r" by blast
    show "test r (x # xs)"
    proof (cases p)
      case Nil
      with pq have "matchesEmpty r" by (simp add: matchesEmpty_iff)
      then show ?thesis by simp
    next
      case (Cons y ys)
      with pq have "xs = ys @ q" "ys \<in> denote (residual x r)"
        by (auto simp: residual_denote)
      then have "test (residual x r) xs" using Cons.IH by blast
      then show ?thesis by simp
    qed
  qed
qed

subsection \<open>What \<open>youtubeRegex\<close> matches\<close>

lemma dropPrefix_iff: "dropPrefix p s = Some r \<longleftrightarrow> s = p @ r"
  by (induction p s rule: dropPrefix.induct) auto

lemma dropPrefix_append: "dropPrefix p (p @ r) = Some r"
  by (simp add: dropPrefix_iff)

lemma denote_lits: "denote (lits cs) = {cs}"
  by (induction cs) auto

lemma denote_Opt: "denote (Opt r) = insert [] (denote r)"
  by (auto simp: Opt_def)

lemma denote_Seq: "denote (Seq r1 r2) = cat (denote r1) (denote r2)"
  by (simp add: cat_def)

lemma cat_empty: "cat {} B = {}"
  by (simp add: cat_def)

lemma cat_insert: "cat (insert a A) B = (\<lambda>v. a @ v) ` B \<union> cat A B"
  by (auto simp: cat_def)

lemma cat_Un: "cat (A \<union> A') B = cat A B \<union> cat A' B"
  by (auto simp: cat_def)

lemma youtubeRegex_denote: "denote youtubeRegex = cat urlHeads (denote (Plus Dot))"
proof -
  have "denote r = urlHeads \<Longrightarrow> denote (Seq r (Plus Dot)) = cat urlHeads (denote (Plus Dot))" for r
    by (simp add: cat_def)
  moreover have "denote (Seq (Opt (Seq (lits (js ''http'')) (Seq (Opt (lits (js ''s''))) (lits (js ''://'')))))
            (Seq (Opt (lits (js ''www.'')))
               (Seq (Alt (lits (js ''youtube.com'')) (lits (js ''youtu.be'')))
                  (lits (js ''/''))))) = urlHeads"
    apply (simp add: denote_Seq denote_lits denote_Opt cat_insert cat_empty cat_Un urlHeads_def
        del: denote.simps(6))
    apply (auto simp: js_def)
    done
  ultimately show ?thesis by (simp only: youtubeRegex_def)
qed

lemma Plus_Dot_prefix:
  "(\<exists>p q. s = p @ q \<and> p \<in> cat H (denote (Plus Dot))) \<longleftrightarrow>
   (\<exists>h c rest. h \<in> H \<and> s = h @ c # rest \<and> \<not> isLineTerminator c)"
proof
  assume "\<exists>p q. s = p @ q \<and> p \<in> cat H (denote (Plus Dot))"
  then obtain h d q where "s = (h @ d) @ q" "h \<in> H" "d \<in> denote (Plus Dot)"
    by (auto simp: cat_def)
  moreover from this obtain c v where "d = c # v" "\<not> isLineTerminator c"
    by (auto simp: Plus_def)
  ultimately have "h \<in> H \<and> s = h @ c # (v @ q) \<and> \<not> isLineTerminator c" by simp
  then show "\<exists>h c rest. h \<in> H \<and> s = h @ c # rest \<and> \<not> isLineTerminator c" by blast
next
  assume "\<exists>h c rest. h \<in> H \<and> s = h @ c # rest \<and> \<not> isLineTerminator c"
  then obtain h c rest where *: "h \<in> H" "s = h @ c # rest" "\<not> isLineTerminator c" by blast
  then have "[c] \<in> denote (Plus Dot)"
    using rep.rep_nil [of "denote Dot"] by (auto simp: Plus_def)
  with * have "s = (h @ [c]) @ rest \<and> h @ [c] \<in> cat H (denote (Plus Dot))"
    by (auto simp: cat_def)
  then show "\<exists>p q. s = p @ q \<and> p \<in> cat H (denote (Plus Dot))" by blast
qed

lemma dropPrefix_case:
  "(case dropPrefix h s of Some (c # rest) \<Rightarrow> \<not> isLineTerminator c | _ \<Rightarrow> False) \<longleftrightarrow>
   (\<exists>c rest. s = h @ c # rest \<and> \<not> isLineTerminator c)"
proof (cases "dropPrefix h s")
  case None
  have "s \<noteq> h @ r" for r
    using None dropPrefix_append [of h r] by auto
  with None show ?thesis by simp
next
  case (Some r)
  then have s: "s = h @ r" by (simp add: dropPrefix_iff)
  show ?thesis
  proof (cases r)
    case Nil
    with Some s show ?thesis by simp
  next
    case (Cons c rest)
    with Some s show ?thesis by simp
  qed
qed

lemma url_shape_iff:
  "url_shape s \<longleftrightarrow> (\<exists>h c rest. h \<in> urlHeads \<and> s = h @ c # rest \<and> \<not> isLineTerminator c)"
  unfolding url_shape_def dropPrefix_case urlHeads_def by (simp del: append_assoc) blast

lemmas url_eval =
  isValidYouTubeUrl_def youtubeRegex_def js_def Opt_def Plus_def isLineTerminator_def

text \<open>
  Claim C3, as the specification words it: the check accepts a string if and only if,
  after an optional protocol and an optional \<open>www.\<close>, it begins with one of the two
  host names followed by \<open>/\<close> and at least one further character. This fails for a
  string whose only further character is the line separator U+2028: \<open>.\<close> does not
  match it.
\<close>

theorem isValidYouTubeUrl_spec_shape_counterexample:
  "\<not> (isValidYouTubeUrl (js ''youtu.be/'' @ [0x2028]) \<longleftrightarrow>
      spec_url_shape (js ''youtu.be/'' @ [0x2028]))"
proof -
  have "\<not> isValidYouTubeUrl (js ''youtu.be/'' @ [0x2028])"
    by (simp add: url_eval)
  moreover have "spec_url_shape (js ''youtu.be/'' @ [0x2028])"
    by (simp add: spec_url_shape_def js_def)
  ultimately show ?thesis by simp
qed

text \<open>
  Claim C3, amended: for every input string, the URL validity check accepts it if and
  only if, after optionally stripping a leading \<open>http://\<close> or \<open>https://\<close> and an
  optional \<open>www.\<close>, the remainder begins with \<open>youtube.com\<close> or \<open>youtu.be\<close> followed
  by \<open>/\<close> and at least one further character that is not a line terminator (LF, CR,
  U+2028, U+2029). The check is a function of the string alone.
\<close>

theorem isValidYouTubeUrl_url_shape: "isValidYouTubeUrl s \<longleftrightarrow> url_shape s"
  by (simp only: isValidYouTubeUrl_def test_iff youtubeRegex_denote Plus_Dot_prefix url_shape_iff)

theorem isValidYouTubeUrl_url_shape_witness:
  "isValidYouTubeUrl (js ''https://youtu.be/abc123'') \<and> url_shape (js ''https://youtu.be/abc123'')"
proof -
  have "url_shape (js ''https://youtu.be/abc123'')"
    by (simp add: url_shape_def js_def isLineTerminator_def)
  then show ?thesis
    using isValidYouTubeUrl_url_shape [of "js ''https://youtu.be/abc123''"] by simp
qed

section \<open>Rounding to binary64\<close>

text \<open>A number with at most 53 significant bits above the subnormal limit is not changed.\<close>

lemma pow2_powr: "pow2 e = 2 powr of_int e"
  by (simp add: pow2_def powr_realpow [symmetric] powr_minus divide_inverse)

lemma floor_log2: "pow2 k \<le> x \<Longrightarrow> x < pow2 (k + 1) \<Longrightarrow> \<lfloor>log 2 x\<rfloor> = k"
proof -
  assume a: "pow2 k \<le> x" "x < pow2 (k + 1)"
  have "0 < pow2 k" by (simp add: pow2_def)
  with a have "0 < x" by linarith
  then show ?thesis
    using a by (simp add: floor_log_eq_powr_iff pow2_powr)
qed

lemma roundTiesToEven_int: "roundTiesToEven (of_int m) = m"
  by (simp add: roundTiesToEven_def)

lemma pow2_neg: "pow2 (- int m) = 1 / 2 ^ m"
  by (simp add: pow2_def)


lemma binary64_dyadic:
  assumes "0 < n" and "n < 2 ^ 53" and "k \<le> 1074"
  shows "binary64 (of_int n / 2 ^ k) = of_int n / 2 ^ k"
proof -
  let ?x = "real_of_int n / 2 ^ k"
  let ?L = "\<lfloor>log 2 \<bar>?x\<bar>\<rfloor>"
  let ?e = "max ?L (- 1022) - 52"
  have pos: "0 < ?x" using assms(1) by simp
  have "?x < 2 ^ 53 / 2 ^ k"
    using assms(2) by (simp add: divide_strict_right_mono)
  also have "\<dots> = 2 powr of_int (53 - int k)"
    by (simp add: powr_diff powr_realpow [symmetric])
  finally have "log 2 ?x < of_int (53 - int k)"
    using pos by (simp add: log_less_iff)
  moreover have "\<bar>?x\<bar> = ?x" using assms(1) by simp
  ultimately have "?L < 53 - int k"
    by (simp only: floor_less_iff)
  then have "?e \<le> - int k" using assms(3) by simp
  then have "?e = - int (k + nat (- ?e - int k))" by simp
  then obtain j :: nat where j: "?e = - int (k + j)" ..
  have p: "pow2 ?e = 1 / 2 ^ (k + j)"
    unfolding j by (rule pow2_neg)
  have "?x / pow2 ?e = of_int (n * 2 ^ j)"
    unfolding p by (simp add: power_add)
  then have "roundTiesToEven (?x / pow2 ?e) = n * 2 ^ j"
    by (simp only: roundTiesToEven_int)
  then have "of_int (roundTiesToEven (?x / pow2 ?e)) * pow2 ?e = ?x"
    unfolding p by (simp add: power_add)
  with pos show ?thesis
    by (simp add: binary64_def Let_def)
qed

lemma binary64_values:
  "binary64 (3 / 4) = 3 / 4"
  "binary64 (45 / 4) = 45 / 4"
  "binary64 (45 / 2) = 45 / 2"
  "binary64 (135 / 4) = 135 / 4"
  "binary64 (45) = 45"
  "binary64 (225 / 4) = 225 / 4"
  "binary64 (135 / 2) = 135 / 2"
  "binary64 (315 / 4) = 315 / 4"
  "binary64 (90) = 90"
  "binary64 (405 / 4) = 405 / 4"
  "binary64 (21 / 32) = 21 / 32"
  "binary64 (315 / 32) = 315 / 32"
  "binary64 (3195 / 32) = 3195 / 32"
proof -
  show "binary64 (3 / 4) = 3 / 4" using binary64_dyadic [of 3 2] by simp
  show "binary64 (45 / 4) = 45 / 4" using binary64_dyadic [of 45 2] by simp
  show "binary64 (45 / 2) = 45 / 2" using binary64_dyadic [of 45 1] by simp
  show "binary64 (135 / 4) = 135 / 4" using binary64_dyadic [of 135 2] by simp
  show "binary64 (45) = 45" using binary64_dyadic [of 45 0] by simp
  show "binary64 (225 / 4) = 225 / 4" using binary64_dyadic [of 225 2] by simp
  show "binary64 (135 / 2) = 135 / 2" using binary64_dyadic [of 135 1] by simp
  show "binary64 (315 / 4) = 315 / 4" using binary64_dyadic [of 315 2] by simp
  show "binary64 (90) = 90" using binary64_dyadic [of 90 0] by simp
  show "binary64 (405 / 4) = 405 / 4" using binary64_dyadic [of 405 2] by simp
  show "binary64 (21 / 32) = 21 / 32" using binary64_dyadic [of 21 5] by simp
  show "binary64 (315 / 32) = 315 / 32" using binary64_dyadic [of 315 5] by simp
  show "binary64 (3195 / 32) = 3195 / 32" using binary64_dyadic [of 3195 5] by simp
qed

section \<open>Evaluating concrete executions\<close>

lemma js_nonempty: "js (c # cs) \<noteq> []"
  by (simp add: js_def)

lemma valid_example: "isValidYouTubeUrl (js ''https://youtu.be/abc123'')"
  by (simp add: url_eval)

lemma invalid_example: "\<not> isValidYouTubeUrl (js ''not a url'')"
  by (simp add: url_eval)

lemma mp3_320: "js ''mp3-320'' \<in> opt_id ` set downloadOptions"
  by (simp add: downloadOptions_def)

lemma replicate_9: "replicate 9 x = [x, x, x, x, x, x, x, x, x]"
  by (simp add: numeral_eq_Suc)

lemma replicate_10: "replicate 10 x = [x, x, x, x, x, x, x, x, x, x]"
  by (simp add: numeral_eq_Suc)

lemmas simple_eval =
  step_def handleAnalyze_def analysisDone_def handleDownload_def progressTick_def resetForm_def
  init_def js_add_def js_mul_def binary64_values


section \<open>The progress simulator\<close>

text \<open>
  The candidate is the rounded sum, not the exact one: from 90 with
  \<open>Math.random()\<close> = 0.6666666666666665 the exact sum is below 100, the sum the
  program computes is 100, and the tick completes the download.
\<close>

lemma tick_completes_by_rounding:
  "binary64 (1501199875790165 / 2 ^ 51) = 1501199875790165 / 2 ^ 51 \<and>
   90 + 1501199875790165 / 2 ^ 51 * 15 < (100 :: real) \<and>
   js_add 90 (js_mul (1501199875790165 / 2 ^ 51) 15) = 100 \<and>
   fst (tick (1501199875790165 / 2 ^ 51)
     \<lparr>iv_ref = (js ''u'', js ''job_1_a''), iv_format = js ''mp3-320'', currentProgress = 90\<rparr>)
     = None"
proof -
  have a: "binary64 (1501199875790165 / 2 ^ 51) = 1501199875790165 / 2 ^ 51"
    using binary64_dyadic [of 1501199875790165 51] by simp
  have "\<lfloor>log 2 \<bar>1501199875790165 / 2 ^ 51 * 15 :: real\<bar>\<rfloor> = 3"
    by (rule floor_log2) (simp_all add: pow2_def)
  then have b: "binary64 (1501199875790165 / 2 ^ 51 * 15) = 5629499534213119 / 2 ^ 49"
    by (simp add: binary64_def pow2_def roundTiesToEven_def Let_def)
  have "\<lfloor>log 2 \<bar>90 + 5629499534213119 / 2 ^ 49 :: real\<bar>\<rfloor> = 6"
    by (rule floor_log2) (simp_all add: pow2_def)
  then have c: "binary64 (90 + 5629499534213119 / 2 ^ 49) = 100"
    by (simp add: binary64_def pow2_def roundTiesToEven_def Let_def)
  have d: "js_add 90 (js_mul (1501199875790165 / 2 ^ 51) 15) = 100"
    unfolding js_add_def js_mul_def b c ..
  have "fst (tick (1501199875790165 / 2 ^ 51)
     \<lparr>iv_ref = (js ''u'', js ''job_1_a''), iv_format = js ''mp3-320'', currentProgress = 90\<rparr>)
     = None"
    using d by (simp add: tick_def)
  with a d show ?thesis by simp
qed

text \<open>
  Claim C1, as stated: a tick whose candidate is below 100 publishes the candidate. In
  the persistence-backed variant the value written is \<open>Math.round\<close> of the candidate:
  from 90 with a random value of 0.65625 the candidate is 99.84375, the record receives
  progress 100, and the interval keeps running.
\<close>

theorem tick_rounds_counterexample:
  "js_add (currentProgress \<lparr>iv_ref = (js ''u'', js ''job_1_a''), iv_format = js ''mp3-320'',
       currentProgress = 90\<rparr>) (js_mul (21 / 32) 15) = 3195 / 32 \<and>
   job_progress (snd (tick (21 / 32)
       \<lparr>iv_ref = (js ''u'', js ''job_1_a''), iv_format = js ''mp3-320'', currentProgress = 90\<rparr>)
       emptyDoc) = Some 100 \<and>
   fst (tick (21 / 32)
       \<lparr>iv_ref = (js ''u'', js ''job_1_a''), iv_format = js ''mp3-320'', currentProgress = 90\<rparr>) =
     Some \<lparr>iv_ref = (js ''u'', js ''job_1_a''), iv_format = js ''mp3-320'',
           currentProgress = 3195 / 32\<rparr>"
  by (simp add: tick_def Math_round_def js_add_def js_mul_def binary64_values)

text \<open>
  Claim C1, amended, for the persistence-backed variant: every tick of a running
  interval computes candidate = previous (unrounded) progress of the interval + random
  increment, in binary64 arithmetic. If the candidate is at least 100, the tick stops the
  interval and, when its write succeeds, publishes exactly 100 together with status
  \<open>complete\<close> and the result locator, all on that tick. Otherwise the interval keeps
  ticking from the candidate and, when its write succeeds, the tick publishes the
  candidate rounded to the nearest integer and leaves the status of the record as it was.
  A tick whose write fails publishes nothing. No published progress value exceeds 100.
  (The value is published in the job record of the interval and in no other record; the
  tick changes no state cell of the component, whose status follows with the change
  notification.)
\<close>

theorem progressTick_db_publishes:
  assumes "i < length (jobIntervals t)"
  shows "(let iv = jobIntervals t ! i;
              c = js_add (currentProgress iv) (js_mul r 15);
              t' = progressTick_db i r ok t
          in status t' = status t \<and> downloadProgress t' = downloadProgress t \<and>
             currentDownloadUrl t' = currentDownloadUrl t \<and>
             jobIntervals t' =
               (if c \<ge> 100 then take i (jobIntervals t) @ drop (Suc i) (jobIntervals t)
                else (jobIntervals t)[i := iv\<lparr>currentProgress := c\<rparr>]) \<and>
             (\<forall>ref. ref \<noteq> iv_ref iv \<longrightarrow> store t' ref = store t ref) \<and>
             (if ok
              then (case store t' (iv_ref iv) of
                      None \<Rightarrow> False
                    | Some d \<Rightarrow>
                        (if c \<ge> 100
                         then job_progress d = Some 100 \<and> job_status d = Some Complete \<and>
                              job_downloadUrl d =
                                Some (mockDownloadUrl (snd (iv_ref iv)) (iv_format iv))
                         else job_progress d = Some (Math_round c) \<and>
                              job_status d =
                                (case store t (iv_ref iv) of
                                   None \<Rightarrow> None
                                 | Some d0 \<Rightarrow> job_status d0)) \<and>
                        (\<exists>p. job_progress d = Some p \<and> p \<le> 100))
              else store t' = store t))"
proof -
  have "Math_round c \<le> 100" if "c < 100" for c :: real
  proof -
    have "\<lfloor>c + 1 / 2\<rfloor> < 101" using that by (simp add: floor_less_iff)
    then have "\<lfloor>c + 1 / 2\<rfloor> \<le> 100" by simp
    then show ?thesis unfolding Math_round_def by linarith
  qed
  with assms show ?thesis
    by (auto simp: Let_def progressTick_db_def tick_def setDoc_merge_def emptyDoc_def
        split: option.splits)
qed

theorem progressTick_db_publishes_witness:
  "(case store (progressTick_db 0 (3 / 4) True
        (init_db\<lparr>status := Downloading,
           jobIntervals := [\<lparr>iv_ref = (js ''u'', js ''job_1_a''), iv_format = js ''mp3-320'',
                            currentProgress = 90\<rparr>]\<rparr>)) (js ''u'', js ''job_1_a'') of
      None \<Rightarrow> False
    | Some d \<Rightarrow> job_progress d = Some 100 \<and> job_status d = Some Complete) \<and>
   jobIntervals (progressTick_db 0 (3 / 4) True
        (init_db\<lparr>status := Downloading,
           jobIntervals := [\<lparr>iv_ref = (js ''u'', js ''job_1_a''), iv_format = js ''mp3-320'',
                            currentProgress = 90\<rparr>]\<rparr>)) = [] \<and>
   store (progressTick_db 0 (3 / 4) False
        (init_db\<lparr>status := Downloading,
           jobIntervals := [\<lparr>iv_ref = (js ''u'', js ''job_1_a''), iv_format = js ''mp3-320'',
                            currentProgress = 90\<rparr>]\<rparr>)) = store init_db \<and>
   jobIntervals (progressTick_db 0 (3 / 4) False
        (init_db\<lparr>status := Downloading,
           jobIntervals := [\<lparr>iv_ref = (js ''u'', js ''job_1_a''), iv_format = js ''mp3-320'',
                            currentProgress = 90\<rparr>]\<rparr>)) = []"
  using progressTick_db_publishes [of 0
      "init_db\<lparr>status := Downloading,
         jobIntervals := [\<lparr>iv_ref = (js ''u'', js ''job_1_a''), iv_format = js ''mp3-320'',
                          currentProgress = 90\<rparr>]\<rparr>" "3 / 4" True]
    progressTick_db_publishes [of 0
      "init_db\<lparr>status := Downloading,
         jobIntervals := [\<lparr>iv_ref = (js ''u'', js ''job_1_a''), iv_format = js ''mp3-320'',
                          currentProgress = 90\<rparr>]\<rparr>" "3 / 4" False]
  by (simp add: Let_def js_add_def js_mul_def binary64_values split: option.splits)

text \<open>
  Claim C2 says that every progress value published while the status is \<open>downloading\<close>
  lies in [0, 100]. In the timer-only variant the updater tests the previous value, not
  the candidate, so a candidate above 100 is published and the status is still
  \<open>downloading\<close>: after a download request and nine ticks with \<open>Math.random()\<close> =
  0.75 the progress is 101.25.
\<close>

theorem progress_exceeds_100:
  "status (run ([UrlInput (js ''https://youtu.be/abc123''), AnalyzeClick, AnalysisTimer,
       FormatPick (js ''mp3-320''), DownloadClick] @ replicate 9 (ProgressTimer (3 / 4))) init)
     = Downloading \<and>
   downloadProgress (run ([UrlInput (js ''https://youtu.be/abc123''), AnalyzeClick, AnalysisTimer,
       FormatPick (js ''mp3-320''), DownloadClick] @ replicate 9 (ProgressTimer (3 / 4))) init)
     = 405 / 4"
  by (simp add: replicate_9 simple_eval js_nonempty valid_example mp3_320)

section \<open>Analyze requests\<close>

text \<open>
  Claim C4, as stated: an analyze request on a string that fails the check changes the
  status and leaves all other job fields unchanged. In the persistence-backed variant it
  also sets the error message.
\<close>

theorem handleAnalyze_db_invalid_counterexample:
  "\<not> isValidYouTubeUrl (url (init_db\<lparr>url := js ''not a url''\<rparr>)) \<and>
   errorMessage (handleAnalyze_db (js ''1'') (js ''a'') 0 True (init_db\<lparr>url := js ''not a url''\<rparr>))
     \<noteq> errorMessage (init_db\<lparr>url := js ''not a url''\<rparr>)"
  by (simp add: handleAnalyze_db_def init_db_def invalid_example)

text \<open>
  Claim C4, amended: for every input string that fails the URL validity check, an analyze
  request sets status to \<open>error\<close> and, in the persistence-backed variant, the error
  message to the fixed text; it creates no job: no job identifier is generated, no record
  is written, no timer is started, and all other fields are left unchanged.
\<close>

theorem handleAnalyze_invalid:
  assumes "\<not> isValidYouTubeUrl (url s)" and "\<not> isValidYouTubeUrl (url t)"
  shows "handleAnalyze s = s\<lparr>status := Error\<rparr> \<and>
         handleAnalyze_db now rnd ts ok t =
           t\<lparr>status := Error, errorMessage := Some (js ''Please enter a valid YouTube URL.'')\<rparr> \<and>
         jobId (handleAnalyze_db now rnd ts ok t) = jobId t \<and>
         store (handleAnalyze_db now rnd ts ok t) = store t \<and>
         jobTimeouts (handleAnalyze_db now rnd ts ok t) = jobTimeouts t"
  using assms by (simp add: handleAnalyze_def handleAnalyze_db_def)

theorem handleAnalyze_invalid_witness:
  "handleAnalyze (init\<lparr>url := js ''not a url''\<rparr>) = init\<lparr>url := js ''not a url'', status := Error\<rparr> \<and>
   handleAnalyze_db (js ''1'') (js ''a'') 0 True (init_db\<lparr>url := js ''not a url''\<rparr>) =
     init_db\<lparr>url := js ''not a url'', status := Error,
       errorMessage := Some (js ''Please enter a valid YouTube URL.'')\<rparr>"
  using handleAnalyze_invalid [of "init\<lparr>url := js ''not a url''\<rparr>"
      "init_db\<lparr>url := js ''not a url''\<rparr>" "js ''1''" "js ''a''" 0 True]
  by (simp add: invalid_example)

text \<open>
  Claim C5, as stated: after a valid analyze request and the delay, the status is
  \<open>ready\<close> with progress 0. The timer-only variant does not touch the progress on
  analysis: an analyze request after a completed download ends in \<open>ready\<close> with
  progress 100.
\<close>

theorem analyze_progress_counterexample:
  "isValidYouTubeUrl (url (run ([UrlInput (js ''https://youtu.be/abc123''), AnalyzeClick,
       AnalysisTimer, FormatPick (js ''mp3-320''), DownloadClick] @
       replicate 10 (ProgressTimer (3 / 4))) init)) \<and>
   status (run ([UrlInput (js ''https://youtu.be/abc123''), AnalyzeClick,
       AnalysisTimer, FormatPick (js ''mp3-320''), DownloadClick] @
       replicate 10 (ProgressTimer (3 / 4)) @ [AnalyzeClick, AnalysisTimer]) init) = Ready \<and>
   downloadProgress (run ([UrlInput (js ''https://youtu.be/abc123''), AnalyzeClick,
       AnalysisTimer, FormatPick (js ''mp3-320''), DownloadClick] @
       replicate 10 (ProgressTimer (3 / 4)) @ [AnalyzeClick, AnalysisTimer]) init) = 100"
  by (simp add: replicate_10 simple_eval js_nonempty valid_example mp3_320)

text \<open>
  Claim C5, amended: for every input string that passes the URL validity check, an
  analyze request (in the persistence-backed variant: made with a user identity present
  and with the creation of the record succeeding) sets status to \<open>analyzing\<close> and
  schedules the timer; when the timer fires (persistence-backed variant: its write
  succeeding) the status becomes \<open>ready\<close>. In the persistence-backed variant the error
  message is cleared at the request and the job record then holds progress 0 and no error
  message, which the next change notification copies into the component. The timer-only
  variant has no error message and leaves the progress as it was.
\<close>

theorem analyze_valid:
  assumes "isValidYouTubeUrl (url s)"
    and "isValidYouTubeUrl (url t)" and "userId t = Some u" and "u \<noteq> []"
  shows "status (handleAnalyze s) = Analyzing \<and>
         enabled AnalysisTimer (handleAnalyze s) \<and>
         status (step AnalysisTimer (handleAnalyze s)) = Ready \<and>
         downloadProgress (step AnalysisTimer (handleAnalyze s)) = downloadProgress s \<and>
         status (handleAnalyze_db now rnd ts True t) = Analyzing \<and>
         errorMessage (handleAnalyze_db now rnd ts True t) = None \<and>
         jobId (handleAnalyze_db now rnd ts True t) = Some (js ''job_'' @ now @ js ''_'' @ rnd) \<and>
         jobTimeouts (handleAnalyze_db now rnd ts True t) =
           jobTimeouts t @ [(u, js ''job_'' @ now @ js ''_'' @ rnd)] \<and>
         (case step_db (AnalysisTimer_db (length (jobTimeouts t)) True)
                 (handleAnalyze_db now rnd ts True t) of
            None \<Rightarrow> False
          | Some t' \<Rightarrow>
              status t' = Ready \<and> errorMessage t' = None \<and>
              (case store t' (u, js ''job_'' @ now @ js ''_'' @ rnd) of
                 None \<Rightarrow> False
               | Some d \<Rightarrow> job_status d = Some Ready \<and> job_progress d = Some 0 \<and>
                   job_errorMessage d = None) \<and>
              (case onSnapshot t' of
                 None \<Rightarrow> False
               | Some t'' \<Rightarrow> status t'' = Ready \<and> downloadProgress t'' = 0 \<and>
                   errorMessage t'' = None))"
proof -
  let ?j = "js ''job_'' @ now @ js ''_'' @ rnd"
  have simple: "status (handleAnalyze s) = Analyzing \<and>
         enabled AnalysisTimer (handleAnalyze s) \<and>
         status (step AnalysisTimer (handleAnalyze s)) = Ready \<and>
         downloadProgress (step AnalysisTimer (handleAnalyze s)) = downloadProgress s"
    using assms(1) by (simp add: handleAnalyze_def step_def analysisDone_def)
  have nf: "\<not> falsy (userId t)"
    using assms(3,4) by (simp add: falsy_def)
  have t1: "handleAnalyze_db now rnd ts True t =
      t\<lparr>status := Analyzing, errorMessage := None, selectedFormat := [], jobId := Some ?j,
        store := setDoc (u, ?j)
           \<lparr>job_url = Some (url t), job_selectedFormatId = Some [],
            job_status = Some Analyzing, job_progress = Some 0,
            job_downloadUrl = None, job_errorMessage = None,
            job_timestamp = Some ts, job_userId = Some u\<rparr> (store t),
        jobTimeouts := jobTimeouts t @ [(u, ?j)]\<rparr>"
    using assms(2,3) nf by (simp add: handleAnalyze_db_def Let_def)
  have t2: "step_db (AnalysisTimer_db (length (jobTimeouts t)) True)
                 (handleAnalyze_db now rnd ts True t) =
      Some (t\<lparr>status := Ready, errorMessage := None, selectedFormat := [], jobId := Some ?j,
        store := (store t)((u, ?j) \<mapsto>
           \<lparr>job_url = Some (url t), job_selectedFormatId = Some [],
            job_status = Some Ready, job_progress = Some 0,
            job_downloadUrl = None, job_errorMessage = None,
            job_timestamp = Some ts, job_userId = Some u\<rparr>),
        jobTimeouts := jobTimeouts t\<rparr>)"
    unfolding t1 by (simp add: step_db_def analysisDone_db_def setDoc_def setDoc_merge_def)
  show ?thesis
    unfolding t2 using simple assms(3)
    by (simp add: t1 onSnapshot_def orNull_def falsy_def)
qed

theorem analyze_valid_witness:
  "status (handleAnalyze (init\<lparr>url := js ''https://youtu.be/abc123''\<rparr>)) = Analyzing \<and>
   status (step AnalysisTimer (handleAnalyze (init\<lparr>url := js ''https://youtu.be/abc123''\<rparr>))) = Ready \<and>
   status (handleAnalyze_db (js ''1'') (js ''a'') 0 True
     (init_db\<lparr>url := js ''https://youtu.be/abc123'', userId := Some (js ''u''),
        errorMessage := Some (js ''Please enter a valid YouTube URL.'')\<rparr>)) = Analyzing \<and>
   errorMessage (handleAnalyze_db (js ''1'') (js ''a'') 0 True
     (init_db\<lparr>url := js ''https://youtu.be/abc123'', userId := Some (js ''u''),
        errorMessage := Some (js ''Please enter a valid YouTube URL.'')\<rparr>)) = None"
proof -
  have "isValidYouTubeUrl (url (init\<lparr>url := js ''https://youtu.be/abc123''\<rparr>))"
    by (simp add: valid_example)
  moreover have "isValidYouTubeUrl (url (init_db\<lparr>url := js ''https://youtu.be/abc123'',
        userId := Some (js ''u''),
        errorMessage := Some (js ''Please enter a valid YouTube URL.'')\<rparr>))"
    by (simp add: valid_example)
  moreover have "userId (init_db\<lparr>url := js ''https://youtu.be/abc123'',
        userId := Some (js ''u''),
        errorMessage := Some (js ''Please enter a valid YouTube URL.'')\<rparr>) = Some (js ''u'')"
    by simp
  moreover have "js ''u'' \<noteq> []" by (rule js_nonempty)
  ultimately show ?thesis
    using analyze_valid [of "init\<lparr>url := js ''https://youtu.be/abc123''\<rparr>"
        "init_db\<lparr>url := js ''https://youtu.be/abc123'', userId := Some (js ''u''),
           errorMessage := Some (js ''Please enter a valid YouTube URL.'')\<rparr>"
        "js ''u''" "js ''1''" "js ''a''" 0]
    by blast
qed

section \<open>Download requests and reset\<close>

text \<open>
  Claim C6: for every state in which no format identifier is selected, a download request
  is a no-op in both variants: the state after it is the state before it.
\<close>

theorem handleDownload_no_format:
  "(selectedFormat s = [] \<longrightarrow> handleDownload s = s) \<and>
   (selectedFormat t = [] \<longrightarrow> handleDownload_db ok ok' t = t)"
  by (simp add: handleDownload_def handleDownload_db_def)

theorem handleDownload_no_format_witness:
  "handleDownload (init\<lparr>status := Ready\<rparr>) = init\<lparr>status := Ready\<rparr> \<and>
   handleDownload_db True True
     (init_db\<lparr>status := Ready, jobId := Some (js ''job_1_a''), userId := Some (js ''u'')\<rparr>)
     = init_db\<lparr>status := Ready, jobId := Some (js ''job_1_a''), userId := Some (js ''u'')\<rparr>"
  using handleDownload_no_format [of "init\<lparr>status := Ready\<rparr>"
     "init_db\<lparr>status := Ready, jobId := Some (js ''job_1_a''), userId := Some (js ''u'')\<rparr>"
     True True]
  by (simp add: init_def init_db_def)

text \<open>
  Claim C9: for every state with status \<open>complete\<close> or \<open>error\<close>, the reset operation
  yields status \<open>idle\<close>, progress 0, empty format selection, empty URL input and, in
  the persistence-backed variant (the only one with these fields), no error message, no
  result locator and no job identifier.
\<close>

theorem resetForm_clears:
  assumes "status s = Complete \<or> status s = Error" and "status t = Complete \<or> status t = Error"
  shows "status (resetForm s) = Idle \<and> downloadProgress (resetForm s) = 0 \<and>
         selectedFormat (resetForm s) = [] \<and> url (resetForm s) = [] \<and>
         status (resetForm_db t) = Idle \<and> downloadProgress (resetForm_db t) = 0 \<and>
         selectedFormat (resetForm_db t) = [] \<and> url (resetForm_db t) = [] \<and>
         errorMessage (resetForm_db t) = None \<and> currentDownloadUrl (resetForm_db t) = None \<and>
         jobId (resetForm_db t) = None"
  by (simp add: resetForm_def resetForm_db_def)

theorem resetForm_clears_witness:
  "status (resetForm (init\<lparr>url := js ''not a url'', status := Error\<rparr>)) = Idle \<and>
   url (resetForm (init\<lparr>url := js ''not a url'', status := Error\<rparr>)) = [] \<and>
   status (resetForm_db (init_db\<lparr>status := Complete, downloadProgress := 100,
       currentDownloadUrl := Some (js ''https://example.com/downloads/job_1_a_mp3-320.mp4'')\<rparr>)) = Idle \<and>
   downloadProgress (resetForm_db (init_db\<lparr>status := Complete, downloadProgress := 100,
       currentDownloadUrl := Some (js ''https://example.com/downloads/job_1_a_mp3-320.mp4'')\<rparr>)) = 0 \<and>
   currentDownloadUrl (resetForm_db (init_db\<lparr>status := Complete, downloadProgress := 100,
       currentDownloadUrl := Some (js ''https://example.com/downloads/job_1_a_mp3-320.mp4'')\<rparr>)) = None"
  using resetForm_clears [of "init\<lparr>url := js ''not a url'', status := Error\<rparr>"
      "init_db\<lparr>status := Complete, downloadProgress := 100,
         currentDownloadUrl := Some (js ''https://example.com/downloads/job_1_a_mp3-320.mp4'')\<rparr>"]
  by simp

text \<open>
  Claim C10: in the timer-only variant the only guard of the download operation is a
  non-empty format selection. For every state whose selected format is non-empty,
  \<open>handleDownload\<close> sets status to \<open>downloading\<close> and progress to 0 whatever the
  current status is; it is the rendering layer that offers the download button in status
  \<open>ready\<close> only, so that in any other status a click is not possible.
\<close>

theorem handleDownload_only_guard:
  "(selectedFormat s \<noteq> [] \<longrightarrow>
      status (handleDownload s) = Downloading \<and> downloadProgress (handleDownload s) = 0) \<and>
   (status s \<noteq> Ready \<longrightarrow> step DownloadClick s = s)"
  by (simp add: handleDownload_def step_def)

theorem handleDownload_only_guard_witness:
  "status (handleDownload (init\<lparr>selectedFormat := js ''mp3-320'', status := Complete,
       downloadProgress := 100\<rparr>)) = Downloading \<and>
   downloadProgress (handleDownload (init\<lparr>selectedFormat := js ''mp3-320'', status := Complete,
       downloadProgress := 100\<rparr>)) = 0 \<and>
   step DownloadClick (init\<lparr>selectedFormat := js ''mp3-320'', status := Complete,
       downloadProgress := 100\<rparr>) =
     init\<lparr>selectedFormat := js ''mp3-320'', status := Complete, downloadProgress := 100\<rparr>"
  using handleDownload_only_guard [of "init\<lparr>selectedFormat := js ''mp3-320'', status := Complete,
       downloadProgress := 100\<rparr>"]
  by (simp add: js_nonempty)

section \<open>Timers and status\<close>

subsection \<open>The timer-only variant\<close>





subsection \<open>The persistence-backed variant\<close>


















section \<open>Leaving \<open>error\<close> and \<open>complete\<close>\<close>




section \<open>Result locator and error message\<close>




end
